theory Spec2Isabelle
  imports Complex_Main "HOL-Library.Sublist" "HOL-Library.Char_ord" "HOL-Library.List_Lexorder"
    "HOL-Library.Product_Lexorder"
begin

section \<open>Python values shared by the pages\<close>

text \<open>
  Exceptions of the Python runtime that the modelled functions can raise.
\<close>

datatype py_error =
  ZeroDivisionError
  | KeyError string
  | ValueError
  | TypeError

text \<open>
  Text is a list of characters. \<^verbatim>\<open>str.lower\<close> and \<^verbatim>\<open>str.strip\<close> are
  modelled on the ASCII range: the letters A to Z are lowered, and the characters that
  \<^verbatim>\<open>str.isspace\<close> accepts below 128 (tab, line feed, vertical tab, form feed,
  carriage return, the four separators 28 to 31, space) are stripped. Every other
  character is left alone by both.
\<close>

definition lower_char :: "char \<Rightarrow> char" where
  "lower_char c =
     (let n = (of_char c :: nat) in if 65 \<le> n \<and> n \<le> 90 then char_of (n + 32) else c)"

definition lower :: "string \<Rightarrow> string" where
  "lower s = map lower_char s"

definition is_space :: "char \<Rightarrow> bool" where
  "is_space c = (let n = (of_char c :: nat) in (9 \<le> n \<and> n \<le> 13) \<or> (28 \<le> n \<and> n \<le> 32))"

definition lstrip :: "string \<Rightarrow> string" where
  "lstrip s = dropWhile is_space s"

definition rstrip :: "string \<Rightarrow> string" where
  "rstrip s = rev (dropWhile is_space (rev s))"

definition strip :: "string \<Rightarrow> string" where
  "strip s = rstrip (lstrip s)"

text \<open>\<^verbatim>\<open>k in text\<close> on strings: \<open>k\<close> occurs in \<open>text\<close> as a contiguous run.\<close>

fun py_in :: "string \<Rightarrow> string \<Rightarrow> bool" where
  "py_in k [] = (k = [])"
| "py_in k (c # t) = (prefix k (c # t) \<or> py_in k t)"

text \<open>\<^verbatim>\<open>s.split(sep)\<close> with a one-character separator: never an empty list.\<close>

fun split_on :: "char \<Rightarrow> string \<Rightarrow> string list" where
  "split_on sep [] = [[]]"
| "split_on sep (c # cs) =
     (if c = sep then [] # split_on sep cs
      else (case split_on sep cs of
              [] \<Rightarrow> [[c]]
            | p # ps \<Rightarrow> (c # p) # ps))"

text \<open>
  \<^verbatim>\<open>round(x, 2)\<close>: rounding to two decimals, a tie going to the even neighbour.
  Numbers are exact rationals here; the binary representation error of a Python float is
  not modelled.
\<close>

definition round_half_even :: "'a::floor_ceiling \<Rightarrow> int" where
  "round_half_even x =
     (let f = \<lfloor>x\<rfloor>; d = x - of_int f
      in if d < 1 / 2 then f
         else if 1 / 2 < d then f + 1
         else if even f then f else f + 1)"

definition round2 :: "'a::floor_ceiling \<Rightarrow> 'a" where
  "round2 x = of_int (round_half_even (x * 100)) / 100"

section \<open>Keyword matching page (pages/3\_Keyword\_Match.py)\<close>

text \<open>
  A cell of the \<^verbatim>\<open>Content\<close> column is \<open>None\<close> when \<^verbatim>\<open>pd.isna\<close> holds of it
  and otherwise \<open>Some\<close> of its \<^verbatim>\<open>str()\<close> rendering.
\<close>

definition match_keywords :: "string option \<Rightarrow> string list \<Rightarrow> bool" where
  "match_keywords text keywords =
     (case text of
        None \<Rightarrow> False
      | Some t \<Rightarrow>
          (let text' = lower t
           in list_ex (\<lambda>keyword. py_in (strip (lower keyword)) text') keywords))"

text \<open>The rows of an uploaded classification table: the three required columns.\<close>

record kw_row =
  ID :: int
  Content :: "string option"
  Review_Type :: "string option"

text \<open>
  The result frame: the three copied columns of every row, and one boolean column per
  category, named by the category (the source names it \<^verbatim>\<open>Is <category>\<close>).
\<close>

record kw_results =
  res_ID :: "int list"
  res_Content :: "string option list"
  res_Original_Review_Type :: "string option list"
  res_Is :: "(string \<times> bool list) list"

record kw_stat =
  matched :: nat
  percentage :: rat

text \<open>
  The categories are a dict from name to raw keyword string: an association list with
  distinct names, in insertion order.
\<close>

type_synonym categories = "(string \<times> string) list"

definition category_keywords :: "string \<Rightarrow> string list" where
  "category_keywords raw = map strip (split_on (CHR '','') raw)"

definition category_column :: "kw_row list \<Rightarrow> string \<Rightarrow> bool list" where
  "category_column df raw =
     map (\<lambda>r. match_keywords (Content r) (category_keywords raw)) df"

definition count_true :: "bool list \<Rightarrow> nat" where
  "count_true bs = length (filter (\<lambda>b. b) bs)"

text \<open>
  \<^verbatim>\<open>round(matched / len(df) * 100, 2)\<close>: the division raises on a table without
  rows.
\<close>

definition category_stat :: "nat \<Rightarrow> bool list \<Rightarrow> py_error + kw_stat" where
  "category_stat n col =
     (let m = count_true col
      in if n = 0 then Inl ZeroDivisionError
         else Inr \<lparr>matched = m, percentage = round2 (of_nat m / of_nat n * 100)\<rparr>)"

fun category_stats ::
  "nat \<Rightarrow> (string \<times> bool list) list \<Rightarrow> py_error + (string \<times> kw_stat) list" where
  "category_stats n [] = Inr []"
| "category_stats n ((category, col) # rest) =
     (case category_stat n col of
        Inl e \<Rightarrow> Inl e
      | Inr s \<Rightarrow>
          (case category_stats n rest of
             Inl e \<Rightarrow> Inl e
           | Inr ss \<Rightarrow> Inr ((category, s) # ss)))"

definition analyze_reviews ::
  "kw_row list \<Rightarrow> categories \<Rightarrow> py_error + (kw_results \<times> (string \<times> kw_stat) list)" where
  "analyze_reviews df cats =
     (let results =
            \<lparr>res_ID = map ID df,
             res_Content = map Content df,
             res_Original_Review_Type = map Review_Type df,
             res_Is = map (\<lambda>(category, raw). (category, category_column df raw)) cats\<rparr>
      in case category_stats (length df) (res_Is results) of
           Inl e \<Rightarrow> Inl e
         | Inr stats \<Rightarrow> Inr (results, stats))"

text \<open>
  The category editor of the same page counts a category's keywords after discarding
  the pieces that are empty once trimmed
  (\<^verbatim>\<open>[k.strip() for k in keywords.split(',') if k.strip()]\<close>).
\<close>

definition editor_keyword_list :: "string \<Rightarrow> string list" where
  "editor_keyword_list raw = filter (\<lambda>k. k \<noteq> []) (map strip (split_on (CHR '','') raw))"

section \<open>Preprocessing (utils.py, process\_data)\<close>

text \<open>
  A Python float: a finite value (the rational it denotes), an infinity, or NaN.
  Comparisons with NaN are false.
\<close>

datatype fl = Finite rat | PosInf | NegInf | NaN

fun fl_ge :: "fl \<Rightarrow> rat \<Rightarrow> bool" where
  "fl_ge (Finite x) c = (c \<le> x)"
| "fl_ge PosInf c = True"
| "fl_ge NegInf c = False"
| "fl_ge NaN c = False"

fun fl_eq :: "fl \<Rightarrow> rat \<Rightarrow> bool" where
  "fl_eq (Finite x) c = (x = c)"
| "fl_eq PosInf c = False"
| "fl_eq NegInf c = False"
| "fl_eq NaN c = False"


text \<open>
  The values \<^verbatim>\<open>get_review_type\<close> can be handed: a number (the cells of a numeric
  column are floats, or integers in the float range), a string, or \<^verbatim>\<open>None\<close>.
  \<^verbatim>\<open>float(rating)\<close> returns a number as it is, raises \<^verbatim>\<open>TypeError\<close> on
  \<^verbatim>\<open>None\<close>, and parses a string or raises \<^verbatim>\<open>ValueError\<close>; the parser of the
  Python runtime is the parameter \<open>parse\<close>.
\<close>

datatype py_value = PyFloat fl | PyStr string | PyNone

definition py_float :: "(string \<Rightarrow> fl option) \<Rightarrow> py_value \<Rightarrow> py_error + fl" where
  "py_float parse v =
     (case v of
        PyFloat x \<Rightarrow> Inr x
      | PyStr s \<Rightarrow> (case parse s of None \<Rightarrow> Inl ValueError | Some x \<Rightarrow> Inr x)
      | PyNone \<Rightarrow> Inl TypeError)"

text \<open>The bare \<^verbatim>\<open>except\<close> turns every exception of the body into \<open>unknown\<close>.\<close>

definition get_review_type :: "(string \<Rightarrow> fl option) \<Rightarrow> py_value \<Rightarrow> string" where
  "get_review_type parse rating =
     (case py_float parse rating of
        Inl e \<Rightarrow> ''unknown''
      | Inr r \<Rightarrow>
          (if fl_ge r 4 then ''positive''
           else if fl_eq r 3 then ''neutral''
           else ''negative''))"

text \<open>
  The raw frame handed to \<^verbatim>\<open>process_data\<close>: its column names, and its rows as
  functions from column name to cell. The coercions of the dataframe library
  (\<^verbatim>\<open>to_numeric\<close> and \<^verbatim>\<open>to_datetime\<close> with \<^verbatim>\<open>errors='coerce'\<close>, and
  \<^verbatim>\<open>astype(str)\<close>) are parameters; a rating that fails numeric coercion becomes NaN
  and a date that fails to parse becomes \<open>None\<close> (NaT).
\<close>

datatype raw_cell = RawStr string | RawNum rat | RawNull

type_synonym date = "nat \<times> nat \<times> nat"

record raw_frame =
  columns :: "string list"
  raw_rows :: "(string \<Rightarrow> raw_cell) list"

record coercions =
  to_numeric :: "raw_cell \<Rightarrow> fl"
  to_datetime :: "raw_cell \<Rightarrow> date option"
  astype_str :: "raw_cell \<Rightarrow> string"

record processed_row =
  p_ID :: nat
  p_Asin :: raw_cell
  p_Title :: string
  p_Content :: string
  p_Model :: string
  p_Rating :: fl
  p_Date :: "date option"
  p_Review_Type :: string

text \<open>What a page shows when it rejects a table, with the column names it prints.\<close>

datatype page_error = MissingColumn string | NotPreprocessed "string list"

definition required_columns :: "string list" where
  "required_columns = [''Asin'', ''Title'', ''Content'', ''Model'', ''Rating'', ''Date'']"

text \<open>
  The loop over the required columns: it reports the first one that is absent and
  returns.
\<close>

fun first_missing :: "string list \<Rightarrow> string list \<Rightarrow> string option" where
  "first_missing [] cols = None"
| "first_missing (col # rest) cols =
     (if col \<notin> set cols then Some col else first_missing rest cols)"

definition process_row ::
  "(string \<Rightarrow> fl option) \<Rightarrow> coercions \<Rightarrow> nat \<Rightarrow> (string \<Rightarrow> raw_cell) \<Rightarrow> processed_row" where
  "process_row parse co i r =
     (let rating = to_numeric co (r ''Rating'')
      in \<lparr>p_ID = i,
          p_Asin = r ''Asin'',
          p_Title = strip (astype_str co (r ''Title'')),
          p_Content = strip (astype_str co (r ''Content'')),
          p_Model = strip (astype_str co (r ''Model'')),
          p_Rating = rating,
          p_Date = to_datetime co (r ''Date''),
          p_Review_Type = get_review_type parse (PyFloat rating)\<rparr>)"

definition process_data ::
  "(string \<Rightarrow> fl option) \<Rightarrow> coercions \<Rightarrow> raw_frame \<Rightarrow> page_error + processed_row list" where
  "process_data parse co df =
     (case first_missing required_columns (columns df) of
        Some col \<Rightarrow> Inl (MissingColumn col)
      | None \<Rightarrow>
          Inr (map (\<lambda>(i, r). process_row parse co i r)
                 (zip [1 ..< Suc (length (raw_rows df))] (raw_rows df))))"

section \<open>Statistics page (pages/1\_Statistics.py and utils.py)\<close>

text \<open>
  The check of the statistics page on an uploaded table: when a required column is
  absent it prints the whole list of required columns and returns.
\<close>

definition statistics_required_columns :: "string list" where
  "statistics_required_columns =
     [''ID'', ''Asin'', ''Title'', ''Content'', ''Model'', ''Rating'', ''Date'', ''Review Type'']"

definition statistics_check :: "string list \<Rightarrow> page_error option" where
  "statistics_check cols =
     (if list_all (\<lambda>col. col \<in> set cols) statistics_required_columns then None
      else Some (NotPreprocessed statistics_required_columns))"

text \<open>
  A preprocessed table: the required columns of each row, typed as the spec's data
  model has them (text columns hold a string or are null, \<^verbatim>\<open>Rating\<close> is a number
  or NaN, \<^verbatim>\<open>Date\<close> is a timestamp or NaT), and the further columns by name, in
  order. The derived columns \<^verbatim>\<open>Group\<close> and \<^verbatim>\<open>Month\<close> are among the further
  columns.
\<close>

record review = kw_row +
  Asin :: "string option"
  Title :: "string option"
  Model :: "string option"
  Rating :: "rat option"
  Date :: "date option"

record table =
  rows :: "review list"
  extra :: "(string \<times> string option list) list"

text \<open>\<^verbatim>\<open>df[name] = col\<close>: replaces the column of that name, or appends a new one.\<close>

fun set_column ::
  "string \<Rightarrow> string option list \<Rightarrow> (string \<times> string option list) list
     \<Rightarrow> (string \<times> string option list) list" where
  "set_column name col [] = [(name, col)]"
| "set_column name col ((n, c) # rest) =
     (if n = name then (n, col) # rest else (n, c) # set_column name col rest)"

text \<open>The values of a column that are not null, and the values in order of appearance.\<close>

definition present :: "'a option list \<Rightarrow> 'a list" where
  "present xs = List.map_filter (\<lambda>x. x) xs"

definition unique :: "'a list \<Rightarrow> 'a list" where
  "unique xs = rev (remdups (rev xs))"

text \<open>
  \<^verbatim>\<open>value_counts()\<close>: the count of every value that is not null, in descending
  order of count (values of equal count in order of appearance).
\<close>

definition value_counts :: "string option list \<Rightarrow> (string \<times> nat) list" where
  "value_counts xs =
     (let vs = present xs
      in sort_key (\<lambda>(v, c). - int c) (map (\<lambda>v. (v, count_list vs v)) (unique vs)))"

definition calculate_review_stats :: "table \<Rightarrow> (string \<times> nat \<times> rat) list" where
  "calculate_review_stats df =
     map (\<lambda>(v, c). (v, c, round2 (of_nat c / of_nat (length (rows df)) * 100)))
       (value_counts (map Review_Type (rows df)))"

subsection \<open>Grouped statistics\<close>

text \<open>
  \<^verbatim>\<open>groupby(key)\<close> drops the rows whose key is null and orders the groups by key.
\<close>

definition group_keys :: "('k::linorder) option list \<Rightarrow> 'k list" where
  "group_keys ks = sort (remdups (present ks))"

definition group_rows :: "'k option list \<Rightarrow> 'r list \<Rightarrow> 'k \<Rightarrow> 'r list" where
  "group_rows ks rs g = map snd (filter (\<lambda>(k, r). k = Some g) (zip ks rs))"

text \<open>
  The aggregations \<^verbatim>\<open>count\<close>, \<^verbatim>\<open>mean\<close> and \<^verbatim>\<open>std\<close> skip NaN: the count is the
  number of ratings that are not NaN, the mean is NaN when there is none, and the sample
  standard deviation (divisor \<open>n - 1\<close>) is NaN when there are fewer than two.
\<close>

definition mean :: "rat list \<Rightarrow> rat option" where
  "mean xs = (if xs = [] then None else Some (sum_list xs / of_nat (length xs)))"

definition variance :: "rat list \<Rightarrow> rat" where
  "variance xs =
     (let m = sum_list xs / of_nat (length xs)
      in sum_list (map (\<lambda>x. (x - m) * (x - m)) xs) / of_nat (length xs - 1))"

text \<open>
  The standard deviation is the square root of the variance, in general irrational;
  the frame is rounded to two decimals right after the aggregation. The rounded root
  is computed exactly: with \<open>w = 10000 v\<close> and \<open>f\<close> the integer square root of
  \<open>w\<close>, the root of \<open>w\<close> rounds to \<open>f\<close> or \<open>f + 1\<close> as \<open>w\<close> lies below or above
  \<open>(f + 1/2)\<^sup>2\<close>, a tie going to the even one.
\<close>

function isqrt_from :: "nat \<Rightarrow> nat \<Rightarrow> nat" where
  "isqrt_from n f = (if Suc f * Suc f \<le> n then isqrt_from n (Suc f) else f)"
  by pat_completeness auto
termination
  by (relation "measure (\<lambda>(n, f). n - f)") auto

definition sqrt_round2 :: "rat \<Rightarrow> rat" where
  "sqrt_round2 v =
     (let w = v * 10000;
          f = isqrt_from (nat \<lfloor>w\<rfloor>) 0;
          h = (of_nat f + 1 / 2) * (of_nat f + 1 / 2);
          k = (if w < h then f
               else if h < w then f + 1
               else if even f then f else f + 1)
      in of_nat k / 100)"

definition std_round2 :: "rat list \<Rightarrow> rat option" where
  "std_round2 xs = (if length xs < 2 then None else Some (sqrt_round2 (variance xs)))"

record group_stat =
  st_count :: nat
  st_mean :: "rat option"
  st_std :: "rat option"
  st_types :: "(string \<times> nat) list"

definition group_stat_of :: "review list \<Rightarrow> group_stat" where
  "group_stat_of rs =
     (let xs = present (map Rating rs)
      in \<lparr>st_count = length xs,
          st_mean = map_option round2 (mean xs),
          st_std = std_round2 xs,
          st_types = value_counts (map Review_Type rs)\<rparr>)"

definition group_stats :: "string option list \<Rightarrow> review list \<Rightarrow> (string \<times> group_stat) list" where
  "group_stats ks rs = map (\<lambda>g. (g, group_stat_of (group_rows ks rs g))) (group_keys ks)"

text \<open>
  \<^verbatim>\<open>groupby([key, 'Rating']).size().unstack(fill_value=0)\<close>: one row per group
  that has a rated row, one column per distinct rating of those rows (ascending), each
  cell the number of rows of the group at that rating.
\<close>

record rating_matrix =
  dist_columns :: "rat list"
  dist_rows :: "(string \<times> nat list) list"

definition rated_pairs :: "string option list \<Rightarrow> review list \<Rightarrow> (string \<times> rat) list" where
  "rated_pairs ks rs =
     List.map_filter
       (\<lambda>(k, r). case (k, Rating r) of (Some g, Some x) \<Rightarrow> Some (g, x) | _ \<Rightarrow> None)
       (zip ks rs)"

definition rating_dist :: "string option list \<Rightarrow> review list \<Rightarrow> rating_matrix" where
  "rating_dist ks rs =
     (let ps = rated_pairs ks rs;
          cols = sort (remdups (map snd ps))
      in \<lparr>dist_columns = cols,
          dist_rows =
            map (\<lambda>g. (g, map (\<lambda>x. count_list ps (g, x)) cols)) (sort (remdups (map fst ps)))\<rparr>)"

text \<open>
  \<^verbatim>\<open>rating_dist.div(rating_dist.sum(axis=1), axis=0) * 100\<close>: the division of the
  dataframe library does not raise on a zero divisor, it gives NaN or an infinity
  (\<open>None\<close> here), which the multiplication keeps.
\<close>

definition pd_div :: "rat \<Rightarrow> rat \<Rightarrow> rat option" where
  "pd_div x y = (if y = 0 then None else Some (x / y))"

record pct_matrix =
  pct_columns :: "rat list"
  pct_rows :: "(string \<times> rat option list) list"

definition rating_dist_pct :: "rating_matrix \<Rightarrow> pct_matrix" where
  "rating_dist_pct m =
     \<lparr>pct_columns = dist_columns m,
      pct_rows =
        map (\<lambda>(g, cells).
               (g, map (\<lambda>c. map_option (\<lambda>q. q * 100)
                              (pd_div (of_nat c) (of_nat (sum_list cells)))) cells))
          (dist_rows m)\<rparr>"

text \<open>
  The grouping argument is a column name or a list of column names. A list selects the
  composite key, whatever it holds; anything else selects \<^verbatim>\<open>Asin\<close>. String
  concatenation with a null operand is null.
\<close>

datatype group_by = Column string | Columns "string list"

datatype trend_key = By_Asin | By_Group

definition composite_key :: "review \<Rightarrow> string option" where
  "composite_key r =
     (case (Asin r, Model r) of
        (Some a, Some m) \<Rightarrow> Some (a @ '' - '' @ m)
      | _ \<Rightarrow> None)"

definition analyze_by_group ::
  "table \<Rightarrow> group_by
     \<Rightarrow> table \<times> (string \<times> group_stat) list \<times> pct_matrix \<times> trend_key" where
  "analyze_by_group df gb =
     (case gb of
        Columns cs \<Rightarrow>
          (let ks = map composite_key (rows df);
               df' = df\<lparr>extra := set_column ''Group'' ks (extra df)\<rparr>
           in (df', group_stats ks (rows df'), rating_dist_pct (rating_dist ks (rows df')),
               By_Group))
      | Column c \<Rightarrow>
          (let ks = map Asin (rows df)
           in (df, group_stats ks (rows df), rating_dist_pct (rating_dist ks (rows df)),
               By_Asin)))"

subsection \<open>Monthly trend\<close>

text \<open>
  \<^verbatim>\<open>dt.to_period('M').astype(str)\<close>: the month of a timestamp as four digits of
  year, a dash and two digits of month; the missing timestamp NaT is rendered as the
  string \<open>NaT\<close>, which is an ordinary, non-null value of the new column.
\<close>

definition digit :: "nat \<Rightarrow> char" where
  "digit n = char_of (48 + n mod 10)"

definition month_str :: "date option \<Rightarrow> string" where
  "month_str d =
     (case d of
        None \<Rightarrow> ''NaT''
      | Some (y, m, dd) \<Rightarrow>
          [digit (y div 1000), digit (y div 100), digit (y div 10), digit y,
           CHR ''-'', digit (m div 10), digit m])"

text \<open>
  The trend function is called with the key that \<^verbatim>\<open>analyze_by_group\<close> returned or
  with \<^verbatim>\<open>'Asin'\<close>. Selecting the column \<^verbatim>\<open>Group\<close> raises \<^verbatim>\<open>KeyError\<close> when the
  table has none. The assignment of \<^verbatim>\<open>Month\<close> comes first, so the table is changed
  even when the grouping then raises.
\<close>

definition key_column :: "table \<Rightarrow> trend_key \<Rightarrow> py_error + string option list" where
  "key_column df k =
     (case k of
        By_Asin \<Rightarrow> Inr (map Asin (rows df))
      | By_Group \<Rightarrow>
          (case map_of (extra df) ''Group'' of
             None \<Rightarrow> Inl (KeyError ''Group'')
           | Some col \<Rightarrow> Inr col))"

definition trend_keys :: "string list \<Rightarrow> string option list \<Rightarrow> (string \<times> string) option list" where
  "trend_keys months gs = map (\<lambda>(m, g). map_option (\<lambda>g'. (m, g')) g) (zip months gs)"

definition trend_data ::
  "(string \<times> string) option list \<Rightarrow> review list \<Rightarrow> ((string \<times> string) \<times> rat option) list" where
  "trend_data ks rs =
     map (\<lambda>g. (g, mean (present (map Rating (group_rows ks rs g))))) (group_keys ks)"

definition create_rating_trend_chart ::
  "table \<Rightarrow> trend_key
     \<Rightarrow> table \<times> (py_error + ((string \<times> string) \<times> rat option) list)" where
  "create_rating_trend_chart df k =
     (let months = map (\<lambda>r. month_str (Date r)) (rows df);
          df' = df\<lparr>extra := set_column ''Month'' (map Some months) (extra df)\<rparr>
      in (df',
          (case key_column df' k of
             Inl e \<Rightarrow> Inl e
           | Inr gs \<Rightarrow> Inr (trend_data (trend_keys months gs) (rows df')))))"

section \<open>Category store (pages/3\_Keyword\_Match.py, load\_categories and save\_categories)\<close>

text \<open>
  The store is the file \<^verbatim>\<open>categories.json\<close>, written in UTF-8. Texts are the byte
  strings of their UTF-8 encoding, so a character outside ASCII is a run of bytes from
  128 up. With \<^verbatim>\<open>ensure_ascii=False\<close> the encoder of the JSON library escapes the
  quote, the backslash and the control characters below 32 and writes every other byte
  as it is; with \<^verbatim>\<open>indent=2\<close> it writes one member per line, indented by two
  spaces, with \<open>'': ''\<close> after the key, and \<open>{}\<close> for the empty dict.
\<close>

definition hex_digit :: "nat \<Rightarrow> char" where
  "hex_digit n = (if n < 10 then char_of (48 + n) else char_of (87 + n))"

definition escape_char :: "char \<Rightarrow> string" where
  "escape_char c =
     (if c = CHR 0x22 then [CHR 0x5C, CHR 0x22]
      else if c = CHR 0x5C then [CHR 0x5C, CHR 0x5C]
      else if c = CHR 0x0A then [CHR 0x5C, CHR ''n'']
      else if c = CHR 0x0D then [CHR 0x5C, CHR ''r'']
      else if c = CHR 0x09 then [CHR 0x5C, CHR ''t'']
      else if c = CHR 0x08 then [CHR 0x5C, CHR ''b'']
      else if c = CHR 0x0C then [CHR 0x5C, CHR ''f'']
      else if (of_char c :: nat) < 32 then
        [CHR 0x5C, CHR ''u'', CHR ''0'', CHR ''0'',
         hex_digit (of_char c div 16), hex_digit (of_char c mod 16)]
      else [c])"

definition encode_basestring :: "string \<Rightarrow> string" where
  "encode_basestring s = CHR 0x22 # concat (map escape_char s) @ [CHR 0x22]"

definition encode_item :: "string \<times> string \<Rightarrow> string" where
  "encode_item kv = encode_basestring (fst kv) @ '': '' @ encode_basestring (snd kv)"

fun join_items :: "string list \<Rightarrow> string" where
  "join_items [] = []"
| "join_items [x] = x"
| "join_items (x # y # ys) = x @ [CHR '','', CHR 0x0A, CHR '' '', CHR '' ''] @ join_items (y # ys)"

definition json_dumps :: "(string \<times> string) list \<Rightarrow> string" where
  "json_dumps d =
     (if d = [] then ''{}''
      else [CHR ''{'', CHR 0x0A, CHR '' '', CHR '' ''] @ join_items (map encode_item d)
           @ [CHR 0x0A, CHR ''}''])"

definition unhex :: "char \<Rightarrow> nat option" where
  "unhex c =
     (let n = (of_char c :: nat)
      in if 48 \<le> n \<and> n \<le> 57 then Some (n - 48)
         else if 97 \<le> n \<and> n \<le> 102 then Some (n - 87)
         else if 65 \<le> n \<and> n \<le> 70 then Some (n - 55)
         else None)"

definition hex4 :: "char \<Rightarrow> char \<Rightarrow> char \<Rightarrow> char \<Rightarrow> nat option" where
  "hex4 a b c d =
     (case (unhex a, unhex b, unhex c, unhex d) of
        (Some w, Some x, Some y, Some z) \<Rightarrow> Some (((w * 16 + x) * 16 + y) * 16 + z)
      | _ \<Rightarrow> None)"

definition unescape :: "char \<Rightarrow> char option" where
  "unescape e =
     (if e = CHR 0x22 then Some (CHR 0x22)
      else if e = CHR 0x5C then Some (CHR 0x5C)
      else if e = CHR ''/'' then Some (CHR ''/'')
      else if e = CHR ''n'' then Some (CHR 0x0A)
      else if e = CHR ''r'' then Some (CHR 0x0D)
      else if e = CHR ''t'' then Some (CHR 0x09)
      else if e = CHR ''b'' then Some (CHR 0x08)
      else if e = CHR ''f'' then Some (CHR 0x0C)
      else None)"

definition utf8 :: "nat \<Rightarrow> string option" where
  "utf8 n =
     (if n < 128 then Some [char_of n]
      else if n < 2048 then Some [char_of (192 + n div 64), char_of (128 + n mod 64)]
      else if 55296 \<le> n \<and> n < 57344 then None
      else Some [char_of (224 + n div 4096), char_of (128 + n div 64 mod 64),
                 char_of (128 + n mod 64)])"

definition prepend :: "string \<Rightarrow> (string \<times> string) option \<Rightarrow> (string \<times> string) option" where
  "prepend x res = map_option (\<lambda>(s, t). (x @ s, t)) res"

fun scan_string :: "string \<Rightarrow> (string \<times> string) option" where
  "scan_string [] = None"
| "scan_string (c # cs) =
     (if c = CHR 0x22 then Some ([], cs)
      else if c = CHR 0x5C then
        (case cs of
           [] \<Rightarrow> None
         | e # r \<Rightarrow>
             (if e = CHR ''u'' then
                (case r of
                   a # b # c' # d # r' \<Rightarrow>
                     (case hex4 a b c' d of
                        None \<Rightarrow> None
                      | Some n \<Rightarrow>
                          (case utf8 n of
                             None \<Rightarrow> None
                           | Some x \<Rightarrow> prepend x (scan_string r')))
                 | _ \<Rightarrow> None)
              else (case unescape e of
                      None \<Rightarrow> None
                    | Some x \<Rightarrow> prepend [x] (scan_string r))))
      else if (of_char c :: nat) < 32 then None
      else prepend [c] (scan_string cs))"

definition json_ws :: "char \<Rightarrow> bool" where
  "json_ws c = (c = CHR '' '' \<or> c = CHR 0x09 \<or> c = CHR 0x0A \<or> c = CHR 0x0D)"

definition skip_ws :: "string \<Rightarrow> string" where
  "skip_ws s = dropWhile json_ws s"

text \<open>
  The decoder is modelled on documents that are one object whose values are strings,
  which is what this page writes: whitespace is skipped around the tokens, a string may
  hold any escape of the JSON grammar (an escaped code point is written as its UTF-8
  bytes; a surrogate escape is outside the model), and text after the object is an
  error. A document of any other shape is an error of the model.
\<close>

definition parse_string :: "string \<Rightarrow> (string \<times> string) option" where
  "parse_string s =
     (case s of
        [] \<Rightarrow> None
      | c # cs \<Rightarrow> if c = CHR 0x22 then scan_string cs else None)"

definition expect :: "char \<Rightarrow> string \<Rightarrow> string option" where
  "expect c s = (case s of [] \<Rightarrow> None | x # r \<Rightarrow> if x = c then Some r else None)"

definition parse_item :: "string \<Rightarrow> ((string \<times> string) \<times> string) option" where
  "parse_item s =
     (case parse_string s of
        None \<Rightarrow> None
      | Some (k, r1) \<Rightarrow>
          (case expect (CHR '':'') (skip_ws r1) of
             None \<Rightarrow> None
           | Some r2 \<Rightarrow>
               (case parse_string (skip_ws r2) of
                  None \<Rightarrow> None
                | Some (v, r3) \<Rightarrow> Some ((k, v), skip_ws r3))))"

function parse_pairs :: "string \<Rightarrow> ((string \<times> string) list \<times> string) option" where
  "parse_pairs s =
     (case parse_item s of
        None \<Rightarrow> None
      | Some (kv, r) \<Rightarrow>
          (case r of
             [] \<Rightarrow> None
           | c # r' \<Rightarrow>
               (if c = CHR '','' then
                  (case parse_pairs (skip_ws r') of
                     None \<Rightarrow> None
                   | Some (ps, t) \<Rightarrow> Some (kv # ps, t))
                else if c = CHR ''}'' then Some ([kv], r')
                else None)))"
  by pat_completeness auto
termination
proof (relation "measure length")
  show "wf (measure length)" by simp
next
  fix s x2 kv r c r'
  assume "parse_item s = Some x2" and "(kv, r) = x2" and "r = c # r'" and "c = CHR '',''"
  then have item: "parse_item s = Some (kv, c # r')" by simp
  have scan: "scan_string u = Some (x, t) \<Longrightarrow> length t < length u" for u x t
  proof (induction u arbitrary: x t rule: scan_string.induct)
    case 1
    then show ?case by simp
  next
    case (2 c cs)
    then show ?case
      by (fastforce simp: prepend_def split: if_splits list.splits option.splits)
  qed
  have str: "parse_string u = Some (x, t) \<Longrightarrow> length t < length u" for u x t
    by (cases u) (auto simp: parse_string_def split: if_splits dest: scan)
  have exp: "expect e u = Some t \<Longrightarrow> length t < length u" for e u t
    by (cases u) (auto simp: expect_def split: if_splits)
  have ws: "length (skip_ws u) \<le> length u" for u
    by (simp add: skip_ws_def length_dropWhile_le)
  from item obtain k r1 r2 v r3 where
    a: "parse_string s = Some (k, r1)" and b: "expect (CHR '':'') (skip_ws r1) = Some r2"
    and c: "parse_string (skip_ws r2) = Some (v, r3)" and d: "c # r' = skip_ws r3"
    by (auto simp: parse_item_def split: option.splits)
  have "length (skip_ws r') \<le> length r'" by (rule ws)
  also have "\<dots> < length (c # r')" by simp
  also have "\<dots> \<le> length r3" unfolding d by (rule ws)
  also have "\<dots> < length (skip_ws r2)" using c by (rule str)
  also have "\<dots> \<le> length r2" by (rule ws)
  also have "\<dots> < length (skip_ws r1)" using b by (rule exp)
  also have "\<dots> \<le> length r1" by (rule ws)
  also have "\<dots> < length s" using a by (rule str)
  finally show "(skip_ws r', s) \<in> measure length" by simp
qed

declare parse_pairs.simps [simp del]

text \<open>
  The pairs of the object are put into a dict in order: a repeated key keeps its first
  position and takes the last value.
\<close>

fun dict_set :: "'k \<Rightarrow> 'v \<Rightarrow> ('k \<times> 'v) list \<Rightarrow> ('k \<times> 'v) list" where
  "dict_set k v [] = [(k, v)]"
| "dict_set k v ((k', v') # rest) =
     (if k' = k then (k', v) # rest else (k', v') # dict_set k v rest)"

definition dict_of_pairs :: "('k \<times> 'v) list \<Rightarrow> ('k \<times> 'v) list" where
  "dict_of_pairs ps = foldl (\<lambda>d (k, v). dict_set k v d) [] ps"

definition finish :: "(string \<times> string) list \<Rightarrow> string \<Rightarrow> (string \<times> string) list option" where
  "finish ps t = (if skip_ws t = [] then Some (dict_of_pairs ps) else None)"

definition json_loads :: "string \<Rightarrow> (string \<times> string) list option" where
  "json_loads text =
     (case expect (CHR ''{'') (skip_ws text) of
        None \<Rightarrow> None
      | Some r \<Rightarrow>
          (case skip_ws r of
             [] \<Rightarrow> None
           | c # r' \<Rightarrow>
               (if c = CHR ''}'' then finish [] r'
                else (case parse_pairs (c # r') of
                        None \<Rightarrow> None
                      | Some (ps, t) \<Rightarrow> finish ps t))))"

text \<open>
  The file system is the content of \<^verbatim>\<open>categories.json\<close>, or \<open>None\<close> when the file
  does not exist. Loading returns the empty mapping when there is no file, and raises
  the decoder's error (a \<^verbatim>\<open>ValueError\<close>) on a document that does not parse.
\<close>

definition load_categories :: "string option \<Rightarrow> py_error + categories" where
  "load_categories file =
     (case file of
        None \<Rightarrow> Inr []
      | Some doc \<Rightarrow> (case json_loads doc of None \<Rightarrow> Inl ValueError | Some d \<Rightarrow> Inr d))"

definition save_categories :: "categories \<Rightarrow> string option \<Rightarrow> string option" where
  "save_categories cats file = Some (json_dumps cats)"

section \<open>Properties of the keyword matching page\<close>

subsection \<open>Substring test, lowering and trimming\<close>







lemma split_on_no_sep: "sep \<notin> set s \<Longrightarrow> split_on sep s = [s]"
  by (induction s) auto

lemma strip_blank: "list_all is_space s \<Longrightarrow> strip s = []"
proof -
  assume "list_all is_space s"
  then have e: "dropWhile is_space s = []"
    by (induction s) auto
  show ?thesis unfolding strip_def lstrip_def rstrip_def e by simp
qed

lemma comma_not_space: "\<not> is_space (CHR '','')"
  by (simp add: is_space_def)

text \<open>
  A raw keyword string that is empty or all whitespace parses, on the classification
  path, to the one-element list holding the empty keyword, and the empty keyword occurs
  in every text.
\<close>

lemma category_keywords_blank:
  "list_all is_space raw \<Longrightarrow> category_keywords raw = [[]]"
proof -
  assume a: "list_all is_space raw"
  then have "CHR '','' \<notin> set raw"
    using comma_not_space by (auto simp: list_all_iff)
  then have "split_on (CHR '','') raw = [raw]" by (rule split_on_no_sep)
  with a show ?thesis by (simp add: category_keywords_def strip_blank)
qed

lemma match_keywords_blank:
  "list_all is_space raw \<Longrightarrow> match_keywords (Some t) (category_keywords raw)"
  by (simp add: category_keywords_blank match_keywords_def strip_def lstrip_def rstrip_def lower_def)
   (cases t; simp)

subsection \<open>The keyword matcher\<close>



subsection \<open>Classification of a table\<close>

text \<open>
  Claim C2. A category whose raw keyword string is empty should give an all-false
  column and a matched count of 0. On the code it does not: for the one-row table
  whose content is \<open>great gift\<close> and the single category \<open>X\<close> with the empty keyword
  string, the column of \<open>X\<close> is true for the row, the matched count is 1 and the
  percentage is 100. The classification path trims the pieces of the keyword string
  but keeps the empty ones, and the empty keyword occurs in every present text.
\<close>

theorem analyze_reviews_empty_keywords:
  "analyze_reviews
     [\<lparr>ID = 1, Content = Some ''great gift'', Review_Type = Some ''positive''\<rparr>]
     [(''X'', '''')]
   = Inr (\<lparr>res_ID = [1], res_Content = [Some ''great gift''],
           res_Original_Review_Type = [Some ''positive''],
           res_Is = [(''X'', [True])]\<rparr>,
          [(''X'', \<lparr>matched = 1, percentage = 100\<rparr>)])"
  by code_simp

text \<open>
  Claim C10. On a table without rows and a non-empty category mapping, the
  classification fails with a division by zero: the percentage of the first category
  divides its matched count by the row count, which is 0, and nothing guards it.
\<close>

theorem analyze_reviews_empty_table:
  "cats \<noteq> [] \<Longrightarrow> analyze_reviews [] cats = Inl ZeroDivisionError"
  by (cases cats) (auto simp: analyze_reviews_def category_stat_def Let_def split: prod.splits)

theorem analyze_reviews_empty_table_witness:
  "[(''Kids'', ''kids,girl'')] \<noteq> []
   \<and> analyze_reviews [] [(''Kids'', ''kids,girl'')] = Inl ZeroDivisionError"
  using analyze_reviews_empty_table [of "[(''Kids'', ''kids,girl'')]"] by simp

section \<open>Properties of preprocessing\<close>

subsection \<open>The review type of a rating\<close>

text \<open>
  A rating that failed numeric coercion reaches the classifier as NaN, which
  \<^verbatim>\<open>float\<close> accepts and every comparison rejects: its label is \<open>negative\<close>.
\<close>

lemma get_review_type_nan: "get_review_type parse (PyFloat NaN) = ''negative''"
  by (simp add: get_review_type_def py_float_def)



subsection \<open>Schema validation\<close>

lemma first_missing_None: "first_missing req cols = None \<longleftrightarrow> set req \<subseteq> set cols"
  by (induction req) auto

lemma first_missing_Some:
  "first_missing req cols = Some c \<Longrightarrow>
     c \<in> set req \<and> c \<notin> set cols \<and> (\<forall>c' \<in> set (takeWhile (\<lambda>x. x \<noteq> c) req). c' \<in> set cols)"
  by (induction req) (auto split: if_splits)

lemma length_numbered: "length (zip [1 ..< Suc (length rs)] rs) = length rs"
proof -
  have "length [1 ..< Suc (length rs)] = length rs"
    by (simp only: length_upt diff_Suc_1)
  then show ?thesis by (simp only: length_zip min.idem)
qed

text \<open>
  Claim C4, as the code has it. When a required column is absent, preprocessing fails
  before any row is processed, and the failure names the first absent column in the
  order of the required list (every required column before it is present); it does not
  name the others. When all required columns are present, further columns
  notwithstanding, preprocessing returns one processed row per input row. The check of
  the statistics page fails exactly when a required column is absent and then prints
  the whole list of required columns.
\<close>

theorem schema_validation:
  "((\<exists>c \<in> set required_columns. c \<notin> set (columns df)) \<longrightarrow>
      (\<exists>c. process_data parse co df = Inl (MissingColumn c)
           \<and> c \<in> set required_columns \<and> c \<notin> set (columns df)
           \<and> (\<forall>c' \<in> set (takeWhile (\<lambda>x. x \<noteq> c) required_columns). c' \<in> set (columns df))))
   \<and> ((\<forall>c \<in> set required_columns. c \<in> set (columns df)) \<longrightarrow>
      (\<exists>rs. process_data parse co df = Inr rs \<and> length rs = length (raw_rows df)))
   \<and> ((\<exists>c \<in> set statistics_required_columns. c \<notin> set cols) \<longrightarrow>
      statistics_check cols = Some (NotPreprocessed statistics_required_columns))
   \<and> ((\<forall>c \<in> set statistics_required_columns. c \<in> set cols) \<longrightarrow> statistics_check cols = None)"
proof -
  have a: "(\<exists>c \<in> set required_columns. c \<notin> set (columns df)) \<longrightarrow>
      (\<exists>c. process_data parse co df = Inl (MissingColumn c)
           \<and> c \<in> set required_columns \<and> c \<notin> set (columns df)
           \<and> (\<forall>c' \<in> set (takeWhile (\<lambda>x. x \<noteq> c) required_columns). c' \<in> set (columns df)))"
  proof
    assume "\<exists>c \<in> set required_columns. c \<notin> set (columns df)"
    then have "first_missing required_columns (columns df) \<noteq> None"
      by (auto simp: first_missing_None)
    then obtain c where c: "first_missing required_columns (columns df) = Some c" by blast
    then have "process_data parse co df = Inl (MissingColumn c)"
      by (simp add: process_data_def)
    with first_missing_Some [OF c] show "\<exists>c. process_data parse co df = Inl (MissingColumn c)
           \<and> c \<in> set required_columns \<and> c \<notin> set (columns df)
           \<and> (\<forall>c' \<in> set (takeWhile (\<lambda>x. x \<noteq> c) required_columns). c' \<in> set (columns df))"
      by blast
  qed
  have b: "(\<forall>c \<in> set required_columns. c \<in> set (columns df)) \<longrightarrow>
      (\<exists>rs. process_data parse co df = Inr rs \<and> length rs = length (raw_rows df))"
  proof
    assume "\<forall>c \<in> set required_columns. c \<in> set (columns df)"
    then have "first_missing required_columns (columns df) = None"
      by (auto simp: first_missing_None)
    then show "\<exists>rs. process_data parse co df = Inr rs \<and> length rs = length (raw_rows df)"
      by (simp add: process_data_def length_numbered del: upt_Suc)
  qed
  have c: "(\<exists>c \<in> set statistics_required_columns. c \<notin> set cols) \<longrightarrow>
      statistics_check cols = Some (NotPreprocessed statistics_required_columns)"
    by (auto simp: statistics_check_def list_all_iff)
  have d: "(\<forall>c \<in> set statistics_required_columns. c \<in> set cols) \<longrightarrow> statistics_check cols = None"
    by (auto simp: statistics_check_def list_all_iff)
  from a b c d show ?thesis by blast
qed

text \<open>
  Claim C4 as stated fails: on a table that lacks both \<open>Asin\<close> and \<open>Title\<close>, the
  failure of preprocessing names \<open>Asin\<close> only.
\<close>

theorem process_data_names_first_missing_only:
  "process_data (\<lambda>s. None)
     \<lparr>to_numeric = (\<lambda>c. NaN), to_datetime = (\<lambda>c. None), astype_str = (\<lambda>c. [])\<rparr>
     \<lparr>columns = [''Content'', ''Model'', ''Rating'', ''Date''], raw_rows = []\<rparr>
   = Inl (MissingColumn ''Asin'')
   \<and> ''Title'' \<in> set required_columns
   \<and> ''Title'' \<notin> set [''Content'', ''Model'', ''Rating'', ''Date'']
   \<and> ''Title'' \<noteq> ''Asin''"
  by (simp add: process_data_def required_columns_def)

theorem schema_validation_witness:
  "process_data (\<lambda>s. None)
     \<lparr>to_numeric = (\<lambda>c. NaN), to_datetime = (\<lambda>c. None), astype_str = (\<lambda>c. [])\<rparr>
     \<lparr>columns = [''Asin'', ''Content'', ''Model'', ''Date''], raw_rows = []\<rparr>
   = Inl (MissingColumn ''Title'')
   \<and> (\<exists>rs. process_data (\<lambda>s. None)
     \<lparr>to_numeric = (\<lambda>c. NaN), to_datetime = (\<lambda>c. None), astype_str = (\<lambda>c. [])\<rparr>
     \<lparr>columns = [''Zed'', ''Date'', ''Rating'', ''Model'', ''Content'', ''Title'', ''Asin''],
      raw_rows = [\<lambda>c. RawNull]\<rparr> = Inr rs \<and> length rs = 1)
   \<and> statistics_check [''ID'', ''Asin''] = Some (NotPreprocessed statistics_required_columns)
   \<and> statistics_check [''Extra'', ''ID'', ''Asin'', ''Title'', ''Content'', ''Model'', ''Rating'',
        ''Date'', ''Review Type''] = None"
proof -
  let ?co = "\<lparr>to_numeric = (\<lambda>c. NaN), to_datetime = (\<lambda>c. None), astype_str = (\<lambda>c. [])\<rparr>"
  let ?d1 = "\<lparr>columns = [''Asin'', ''Content'', ''Model'', ''Date''], raw_rows = []\<rparr>"
  let ?d2 = "\<lparr>columns = [''Zed'', ''Date'', ''Rating'', ''Model'', ''Content'', ''Title'', ''Asin''],
      raw_rows = [\<lambda>c. RawNull]\<rparr>"
  have m1: "\<exists>c \<in> set required_columns. c \<notin> set (columns ?d1)"
    by (simp add: required_columns_def)
  have m2: "\<forall>c \<in> set required_columns. c \<in> set (columns ?d2)"
    by (simp add: required_columns_def)
  have m3: "\<exists>c \<in> set statistics_required_columns. c \<notin> set [''ID'', ''Asin'']"
    by (simp add: statistics_required_columns_def)
  have m4: "\<forall>c \<in> set statistics_required_columns. c \<in> set [''Extra'', ''ID'', ''Asin'', ''Title'', ''Content'', ''Model'', ''Rating'',
        ''Date'', ''Review Type'']"
    by (simp add: statistics_required_columns_def)
  from schema_validation [of ?d1 "\<lambda>s. None" ?co "[''ID'', ''Asin'']"] m1 m3
  obtain c where c: "process_data (\<lambda>s. None) ?co ?d1 = Inl (MissingColumn c)"
    and s1: "statistics_check [''ID'', ''Asin''] = Some (NotPreprocessed statistics_required_columns)"
    by blast
  have "process_data (\<lambda>s. None) ?co ?d1 = Inl (MissingColumn ''Title'')"
    by (simp add: process_data_def required_columns_def)
  moreover from schema_validation [of ?d2 "\<lambda>s. None" ?co "[''Extra'', ''ID'', ''Asin'', ''Title'', ''Content'', ''Model'', ''Rating'',
        ''Date'', ''Review Type'']"] m2 m4
  have "(\<exists>rs. process_data (\<lambda>s. None) ?co ?d2 = Inr rs \<and> length rs = length (raw_rows ?d2))
     \<and> statistics_check [''Extra'', ''ID'', ''Asin'', ''Title'', ''Content'', ''Model'', ''Rating'',
        ''Date'', ''Review Type''] = None"
    by blast
  ultimately show ?thesis using s1 by simp
qed

section \<open>Properties of the statistics page\<close>

subsection \<open>Columns, groups and counts\<close>

lemma map_of_set_column: "map_of (set_column name col ex) = (map_of ex)(name \<mapsto> col)"
  by (induction ex) (auto simp: fun_eq_iff)

lemma set_present: "set (present xs) = {x. Some x \<in> set xs}"
  by (induction xs) (auto simp: present_def List.map_filter_simps split: option.splits)

lemma set_group_keys: "set (group_keys ks) = {x. Some x \<in> set ks}"
  by (simp add: group_keys_def set_present)

lemma in_group_rows:
  "i < length ks \<Longrightarrow> i < length rs \<Longrightarrow> ks ! i = Some g \<Longrightarrow> rs ! i \<in> set (group_rows ks rs g)"
proof -
  assume a: "i < length ks" "i < length rs" "ks ! i = Some g"
  then have "(ks ! i, rs ! i) \<in> set (zip ks rs)"
    by (metis length_zip min_less_iff_conj nth_mem nth_zip)
  with a(3) have "(Some g, rs ! i) \<in> set (filter (\<lambda>(k, r). k = Some g) (zip ks rs))"
    by simp
  then show ?thesis unfolding group_rows_def by force
qed

lemma set_unique: "set (unique xs) = set xs"
  by (simp add: unique_def)

lemma value_counts_member:
  "Some v \<in> set xs \<Longrightarrow> (v, count_list (present xs) v) \<in> set (value_counts xs)"
  by (auto simp: value_counts_def Let_def set_unique set_present)

lemma count_list_pos: "x \<in> set xs \<Longrightarrow> 0 < count_list xs x"
  by (induction xs) auto

lemma key_column_Month:
  "key_column (df\<lparr>extra := set_column ''Month'' col (extra df)\<rparr>) k = key_column df k"
  by (cases k) (simp_all add: key_column_def map_of_set_column)

lemma month_str_NaT: "month_str d = ''NaT'' \<longleftrightarrow> d = None"
  by (cases d) (auto simp: month_str_def)

subsection \<open>Monthly trend and unparsed dates\<close>

text \<open>
  Claim C3, as the code has it. A row whose date failed to parse is not excluded from
  the trend: its month label is the string \<open>NaT\<close>, and when its group key is present
  the row belongs to the bucket of \<open>NaT\<close> and that key, whose mean rating is part of the
  series. No error comes from the date (the series is returned whenever the key column
  exists). The row is counted in the review-type summary under its review type.
\<close>

theorem trend_keeps_unparsed_dates:
  assumes "i < length (rows df)" and "Date (rows df ! i) = None"
    and "key_column df k = Inr gs" and "length gs = length (rows df)" and "gs ! i = Some g"
  shows "(\<exists>trend ks.
           snd (create_rating_trend_chart df k) = Inr trend
         \<and> ks = trend_keys (map (\<lambda>r. month_str (Date r)) (rows df)) gs
         \<and> rows df ! i \<in> set (group_rows ks (rows df) (''NaT'', g))
         \<and> ((''NaT'', g), mean (present (map Rating (group_rows ks (rows df) (''NaT'', g)))))
             \<in> set trend)
     \<and> (Review_Type (rows df ! i) = Some ty \<longrightarrow>
           (\<exists>c p. (ty, c, p) \<in> set (calculate_review_stats df) \<and> 0 < c))"
proof -
  let ?months = "map (\<lambda>r. month_str (Date r)) (rows df)"
  let ?ks = "trend_keys ?months gs"
  have len: "length ?ks = length (rows df)"
    using assms(4) by (simp add: trend_keys_def)
  have ki: "?ks ! i = Some (''NaT'', g)"
    using assms by (simp add: trend_keys_def month_str_def)
  have t: "snd (create_rating_trend_chart df k) = Inr (trend_data ?ks (rows df))"
    using assms(3) by (simp add: create_rating_trend_chart_def Let_def key_column_Month)
  have "Some (''NaT'', g) \<in> set ?ks"
    using ki len assms(1) by (metis nth_mem)
  then have "(''NaT'', g) \<in> set (group_keys ?ks)"
    by (simp add: set_group_keys)
  then have m: "((''NaT'', g), mean (present (map Rating (group_rows ?ks (rows df) (''NaT'', g)))))
      \<in> set (trend_data ?ks (rows df))"
    unfolding trend_data_def by force
  have r: "rows df ! i \<in> set (group_rows ?ks (rows df) (''NaT'', g))"
    using in_group_rows [of i ?ks "rows df"] len assms(1) ki by simp
  from t m r have A: "\<exists>trend ks.
           snd (create_rating_trend_chart df k) = Inr trend
         \<and> ks = trend_keys (map (\<lambda>r. month_str (Date r)) (rows df)) gs
         \<and> rows df ! i \<in> set (group_rows ks (rows df) (''NaT'', g))
         \<and> ((''NaT'', g), mean (present (map Rating (group_rows ks (rows df) (''NaT'', g)))))
             \<in> set trend"
    by blast
  have B: "Review_Type (rows df ! i) = Some ty \<longrightarrow>
           (\<exists>c p. (ty, c, p) \<in> set (calculate_review_stats df) \<and> 0 < c)"
  proof
    assume ty: "Review_Type (rows df ! i) = Some ty"
    let ?col = "map Review_Type (rows df)"
    have mem: "Some ty \<in> set ?col"
      using ty assms(1) by (metis length_map nth_map nth_mem)
    then have vc: "(ty, count_list (present ?col) ty) \<in> set (value_counts ?col)"
      by (rule value_counts_member)
    have pos: "0 < count_list (present ?col) ty"
      using mem by (simp add: count_list_pos set_present)
    from vc have "(ty, count_list (present ?col) ty,
        round2 (of_nat (count_list (present ?col) ty) / of_nat (length (rows df)) * 100))
        \<in> set (calculate_review_stats df)"
      unfolding calculate_review_stats_def by force
    with pos show "\<exists>c p. (ty, c, p) \<in> set (calculate_review_stats df) \<and> 0 < c" by blast
  qed
  from A B show ?thesis by blast
qed

theorem trend_keeps_unparsed_dates_witness:
  "(\<exists>trend.
      snd (create_rating_trend_chart
        \<lparr>rows = [\<lparr>ID = 1, Content = Some ''ok'', Review_Type = Some ''negative'',
                  Asin = Some ''A1'', Title = Some ''t'', Model = Some ''M1'',
                  Rating = Some 2, Date = Some (2024, 3, 5)\<rparr>,
                 \<lparr>ID = 2, Content = Some ''good'', Review_Type = Some ''positive'',
                  Asin = Some ''A1'', Title = Some ''t'', Model = Some ''M1'',
                  Rating = Some 5, Date = None\<rparr>],
         extra = []\<rparr> By_Asin) = Inr trend
    \<and> ((''NaT'', ''A1''), Some 5) \<in> set trend)
   \<and> (\<exists>c p. (''positive'', c, p) \<in> set (calculate_review_stats
        \<lparr>rows = [\<lparr>ID = 1, Content = Some ''ok'', Review_Type = Some ''negative'',
                  Asin = Some ''A1'', Title = Some ''t'', Model = Some ''M1'',
                  Rating = Some 2, Date = Some (2024, 3, 5)\<rparr>,
                 \<lparr>ID = 2, Content = Some ''good'', Review_Type = Some ''positive'',
                  Asin = Some ''A1'', Title = Some ''t'', Model = Some ''M1'',
                  Rating = Some 5, Date = None\<rparr>],
         extra = []\<rparr>) \<and> 0 < c)"
proof -
  let ?r1 = "\<lparr>ID = 1, Content = Some ''ok'', Review_Type = Some ''negative'',
                  Asin = Some ''A1'', Title = Some ''t'', Model = Some ''M1'',
                  Rating = Some 2, Date = Some (2024, 3, 5)\<rparr>"
  let ?r2 = "\<lparr>ID = 2, Content = Some ''good'', Review_Type = Some ''positive'',
                  Asin = Some ''A1'', Title = Some ''t'', Model = Some ''M1'',
                  Rating = Some 5, Date = None\<rparr>"
  let ?df = "\<lparr>rows = [?r1, ?r2], extra = []\<rparr>"
  let ?gs = "[Some ''A1'', Some ''A1'']"
  have h1: "1 < length (rows ?df)" by simp
  have h2: "Date (rows ?df ! 1) = None" by simp
  have h3: "key_column ?df By_Asin = Inr ?gs" by (simp add: key_column_def)
  have h4: "length ?gs = length (rows ?df)" by simp
  have h5: "?gs ! 1 = Some ''A1''" by simp
  have h6: "Review_Type (rows ?df ! 1) = Some ''positive''" by simp
  have g: "mean (present (map Rating (group_rows
      (trend_keys (map (\<lambda>r. month_str (Date r)) (rows ?df)) ?gs) (rows ?df) (''NaT'', ''A1''))))
      = Some 5"
    by code_simp
  from trend_keeps_unparsed_dates [OF h1 h2 h3 h4 h5, of "''positive''"]
  obtain trend where t: "snd (create_rating_trend_chart ?df By_Asin) = Inr trend"
    and m: "((''NaT'', ''A1''), mean (present (map Rating (group_rows
      (trend_keys (map (\<lambda>r. month_str (Date r)) (rows ?df)) ?gs) (rows ?df) (''NaT'', ''A1'')))))
      \<in> set trend"
    and s: "Review_Type (rows ?df ! 1) = Some ''positive'' \<longrightarrow>
      (\<exists>c p. (''positive'', c, p) \<in> set (calculate_review_stats ?df) \<and> 0 < c)"
    by blast
  from m have m': "((''NaT'', ''A1''), Some 5) \<in> set trend"
    by (simp only: g)
  from s h6 have s': "\<exists>c p. (''positive'', c, p) \<in> set (calculate_review_stats ?df) \<and> 0 < c"
    by blast
  from t m' s' show ?thesis by blast
qed

text \<open>
  Claim C3 as stated fails: on a table whose only row has an unparsed date, the trend
  series is not empty; it holds the bucket of \<open>NaT\<close> with the row's rating as mean.
\<close>

theorem trend_unparsed_date_counterexample:
  "snd (create_rating_trend_chart
     \<lparr>rows = [\<lparr>ID = 1, Content = Some ''good'', Review_Type = Some ''positive'',
               Asin = Some ''A1'', Title = Some ''t'', Model = Some ''M1'',
               Rating = Some 5, Date = None\<rparr>],
      extra = []\<rparr> By_Asin)
   = Inr [((''NaT'', ''A1''), Some 5)]"
  by code_simp

subsection \<open>Derived columns written to the input table\<close>

text \<open>
  Claim C9, as the code has it. Grouped analysis with a composite key writes the column
  \<open>Group\<close> of the joined keys into the table it was given, and the trend function
  writes the column \<open>Month\<close>; the rows and every column of another name are unchanged.
  A column that already had that name is replaced. Grouped analysis by a single column
  leaves the table as it was.
\<close>

theorem derived_columns_frame:
  "rows (fst (analyze_by_group df (Columns cs))) = rows df
   \<and> map_of (extra (fst (analyze_by_group df (Columns cs)))) ''Group''
       = Some (map composite_key (rows df))
   \<and> (\<forall>n. n \<noteq> ''Group'' \<longrightarrow>
         map_of (extra (fst (analyze_by_group df (Columns cs)))) n = map_of (extra df) n)
   \<and> fst (analyze_by_group df (Column c)) = df
   \<and> rows (fst (create_rating_trend_chart df k)) = rows df
   \<and> map_of (extra (fst (create_rating_trend_chart df k))) ''Month''
       = Some (map (\<lambda>r. Some (month_str (Date r))) (rows df))
   \<and> (\<forall>n. n \<noteq> ''Month'' \<longrightarrow>
         map_of (extra (fst (create_rating_trend_chart df k))) n = map_of (extra df) n)"
  by (simp add: analyze_by_group_def create_rating_trend_chart_def Let_def map_of_set_column
      comp_def)


theorem derived_columns_frame_witness:
  "map_of (extra (fst (analyze_by_group
      \<lparr>rows = [\<lparr>ID = 1, Content = Some ''good'', Review_Type = Some ''positive'',
                Asin = Some ''A1'', Title = Some ''t'', Model = Some ''M1'',
                Rating = Some 5, Date = None\<rparr>],
       extra = [(''Note'', [Some ''x''])]\<rparr> (Columns [''Asin'', ''Model''])))) ''Note''
     = Some [Some ''x'']
   \<and> map_of (extra (fst (create_rating_trend_chart
      \<lparr>rows = [\<lparr>ID = 1, Content = Some ''good'', Review_Type = Some ''positive'',
                Asin = Some ''A1'', Title = Some ''t'', Model = Some ''M1'',
                Rating = Some 5, Date = None\<rparr>],
       extra = [(''Note'', [Some ''x''])]\<rparr> By_Asin))) ''Note''
     = Some [Some ''x'']"
proof -
  let ?df = "\<lparr>rows = [\<lparr>ID = 1, Content = Some ''good'', Review_Type = Some ''positive'',
                Asin = Some ''A1'', Title = Some ''t'', Model = Some ''M1'',
                Rating = Some 5, Date = None\<rparr>],
       extra = [(''Note'', [Some ''x''])]\<rparr>"
  have n1: "''Note'' \<noteq> ''Group''" and n2: "''Note'' \<noteq> ''Month''" by simp_all
  note d = derived_columns_frame [of ?df "[''Asin'', ''Model'']" "''Asin''" By_Asin]
  note a = d [THEN conjunct2, THEN conjunct2, THEN conjunct1, THEN spec, THEN mp, OF n1]
  note b = d [THEN conjunct2, THEN conjunct2, THEN conjunct2, THEN conjunct2, THEN conjunct2,
      THEN conjunct2, THEN spec, THEN mp, OF n2]
  have e: "map_of (extra ?df) ''Note'' = Some [Some ''x'']" by simp
  from a b e show ?thesis by (simp only:)
qed

text \<open>
  Claim C9 as stated fails on a table that already has a column \<open>Group\<close>: that
  pre-existing column is overwritten with the joined keys.
\<close>

theorem group_column_overwritten:
  "map_of (extra (fst (analyze_by_group
      \<lparr>rows = [\<lparr>ID = 1, Content = Some ''good'', Review_Type = Some ''positive'',
                Asin = Some ''A1'', Title = Some ''t'', Model = Some ''M1'',
                Rating = Some 5, Date = None\<rparr>],
       extra = [(''Group'', [Some ''old''])]\<rparr> (Columns [''Asin'', ''Model''])))) ''Group''
     = Some [Some ''A1 - M1'']
   \<and> map_of (extra
      \<lparr>rows = [\<lparr>ID = 1, Content = Some ''good'', Review_Type = Some ''positive'',
                Asin = Some ''A1'', Title = Some ''t'', Model = Some ''M1'',
                Rating = Some 5, Date = None\<rparr>],
       extra = [(''Group'', [Some ''old''])]\<rparr>) ''Group''
     = Some [Some ''old'']"
  by (simp add: analyze_by_group_def Let_def composite_key_def)

subsection \<open>Rating distribution of the groups\<close>










subsection \<open>Grouped statistics over the composite key\<close>






section \<open>Properties of the category store\<close>

lemma unhex_hex_digit: "n < 16 \<Longrightarrow> unhex (hex_digit n) = Some n"
  by (auto simp: unhex_def hex_digit_def Let_def)

lemma hex4_low:
  "n < 32 \<Longrightarrow> hex4 (CHR ''0'') (CHR ''0'') (hex_digit (n div 16)) (hex_digit (n mod 16)) = Some n"
proof -
  assume n: "n < 32"
  then have a: "unhex (hex_digit (n div 16)) = Some (n div 16)"
    by (intro unhex_hex_digit) simp
  have b: "unhex (hex_digit (n mod 16)) = Some (n mod 16)"
    by (intro unhex_hex_digit) simp
  have z: "unhex (CHR ''0'') = Some 0" by (simp add: unhex_def)
  show ?thesis by (simp add: hex4_def a b z)
qed

lemma scan_escape: "scan_string (escape_char c @ t) = prepend [c] (scan_string t)"
proof -
  consider (quote) "c = CHR 0x22" | (backslash) "c = CHR 0x5C" | (nl) "c = CHR 0x0A"
    | (cr) "c = CHR 0x0D" | (tab) "c = CHR 0x09" | (bs) "c = CHR 0x08" | (ff) "c = CHR 0x0C"
    | (ctl) "c \<noteq> CHR 0x22" "c \<noteq> CHR 0x5C" "c \<noteq> CHR 0x0A" "c \<noteq> CHR 0x0D"
        "c \<noteq> CHR 0x09" "c \<noteq> CHR 0x08" "c \<noteq> CHR 0x0C" "(of_char c :: nat) < 32"
    | (plain) "c \<noteq> CHR 0x22" "c \<noteq> CHR 0x5C" "\<not> (of_char c :: nat) < 32"
    by (cases "(of_char c :: nat) < 32") auto
  then show ?thesis
  proof cases
    case ctl
    have u: "utf8 (of_char c) = Some [c]"
      using ctl(8) by (simp add: utf8_def)
    show ?thesis
      using ctl by (simp add: escape_char_def hex4_low u)
  next
    case plain
    then show ?thesis by (auto simp: escape_char_def)
  qed (simp_all add: escape_char_def unescape_def)
qed

lemma scan_encoded: "scan_string (concat (map escape_char s) @ CHR 0x22 # t) = Some (s, t)"
  by (induction s) (simp_all add: scan_escape prepend_def)

lemma parse_string_encoded: "parse_string (encode_basestring s @ t) = Some (s, t)"
  by (simp add: parse_string_def encode_basestring_def scan_encoded)

lemma skip_ws_Cons: "skip_ws (c # s) = (if json_ws c then skip_ws s else c # s)"
  by (simp add: skip_ws_def)

lemma skip_ws_quote: "skip_ws (CHR 0x22 # u) = CHR 0x22 # u"
  by (simp add: skip_ws_Cons json_ws_def)

lemma encode_basestring_head: "\<exists>u. encode_basestring s @ t = CHR 0x22 # u"
  by (simp add: encode_basestring_def)

lemma skip_ws_encoded: "skip_ws (encode_basestring s @ t) = encode_basestring s @ t"
proof -
  obtain u where u: "encode_basestring s @ t = CHR 0x22 # u"
    using encode_basestring_head by blast
  show ?thesis unfolding u by (rule skip_ws_quote)
qed

lemma parse_item_encoded: "parse_item (encode_item (k, v) @ t) = Some ((k, v), skip_ws t)"
proof -
  have a: "parse_string (encode_item (k, v) @ t)
      = Some (k, CHR '':'' # CHR '' '' # encode_basestring v @ t)"
    by (simp add: encode_item_def parse_string_encoded)
  have b: "expect (CHR '':'') (skip_ws (CHR '':'' # CHR '' '' # encode_basestring v @ t))
      = Some (CHR '' '' # encode_basestring v @ t)"
    by (simp add: expect_def skip_ws_Cons json_ws_def)
  have c: "skip_ws (CHR '' '' # encode_basestring v @ t) = encode_basestring v @ t"
    by (simp add: skip_ws_Cons json_ws_def skip_ws_encoded)
  show ?thesis
    by (simp add: parse_item_def a b c parse_string_encoded)
qed

lemma join_items_head:
  "\<exists>u. join_items (map encode_item (kv # kvs)) @ t = CHR 0x22 # u"
  by (cases kvs) (simp_all add: encode_item_def encode_basestring_def)

lemma parse_pairs_encoded:
  "kvs \<noteq> [] \<Longrightarrow>
     parse_pairs (join_items (map encode_item kvs) @ CHR 0x0A # CHR ''}'' # t) = Some (kvs, t)"
proof (induction kvs)
  case Nil
  then show ?case by simp
next
  case (Cons kv kvs)
  obtain k v where kv: "kv = (k, v)" by (cases kv)
  show ?case
  proof (cases kvs)
    case Nil
    have "parse_item (encode_item (k, v) @ CHR 0x0A # CHR ''}'' # t)
        = Some ((k, v), CHR ''}'' # t)"
      by (simp add: parse_item_encoded skip_ws_Cons json_ws_def)
    then show ?thesis
      using Nil kv by (subst parse_pairs.simps) simp
  next
    case (Cons kv' kvs')
    let ?rest = "join_items (map encode_item kvs) @ CHR 0x0A # CHR ''}'' # t"
    have ih: "parse_pairs ?rest = Some (kvs, t)"
      using Cons.IH Cons by simp
    obtain u where h: "?rest = CHR 0x22 # u"
      unfolding Cons using join_items_head by blast
    have "skip_ws (CHR 0x0A # CHR '' '' # CHR '' '' # CHR 0x22 # u) = CHR 0x22 # u"
      by (simp add: skip_ws_Cons json_ws_def)
    then have sk: "skip_ws (CHR 0x0A # CHR '' '' # CHR '' '' # ?rest) = ?rest"
      by (simp only: h)
    have e: "join_items (map encode_item ((k, v) # kvs)) @ CHR 0x0A # CHR ''}'' # t
        = encode_item (k, v) @ CHR '','' # CHR 0x0A # CHR '' '' # CHR '' '' # ?rest"
      using Cons by simp
    have "skip_ws (CHR '','' # CHR 0x0A # CHR '' '' # CHR '' '' # ?rest)
        = CHR '','' # CHR 0x0A # CHR '' '' # CHR '' '' # ?rest"
      by (simp add: skip_ws_Cons json_ws_def)
    then have it: "parse_item (encode_item (k, v) @ CHR '','' # CHR 0x0A # CHR '' '' # CHR '' '' # ?rest)
        = Some ((k, v), CHR '','' # CHR 0x0A # CHR '' '' # CHR '' '' # ?rest)"
      by (simp only: parse_item_encoded)
    have "parse_pairs (encode_item (k, v) @ CHR '','' # CHR 0x0A # CHR '' '' # CHR '' '' # ?rest)
        = Some ((k, v) # kvs, t)"
      by (subst parse_pairs.simps) (simp add: it sk ih)
    then show ?thesis
      unfolding kv e .
  qed
qed

lemma dict_set_fresh: "k \<notin> fst ` set d \<Longrightarrow> dict_set k v d = d @ [(k, v)]"
  by (induction d) auto

lemma foldl_dict_set:
  "distinct (map fst (d @ ps)) \<Longrightarrow> foldl (\<lambda>d (k, v). dict_set k v d) d ps = d @ ps"
proof (induction ps arbitrary: d)
  case Nil
  then show ?case by simp
next
  case (Cons p ps)
  obtain k v where p: "p = (k, v)" by (cases p)
  from Cons.prems p have "k \<notin> fst ` set d" by auto
  then have s: "dict_set k v d = d @ [(k, v)]" by (rule dict_set_fresh)
  from Cons.prems p have "distinct (map fst ((d @ [(k, v)]) @ ps))" by simp
  from Cons.IH [OF this] show ?case by (simp add: p s)
qed

lemma dict_of_pairs_distinct: "distinct (map fst ps) \<Longrightarrow> dict_of_pairs ps = ps"
  using foldl_dict_set [of "[]" ps] by (simp add: dict_of_pairs_def)

lemma json_loads_dumps: "distinct (map fst d) \<Longrightarrow> json_loads (json_dumps d) = Some d"
proof (cases d)
  case Nil
  then show ?thesis
    by (simp add: json_loads_def json_dumps_def expect_def skip_ws_Cons json_ws_def finish_def
        dict_of_pairs_def skip_ws_def)
next
  case (Cons kv kvs)
  assume dist: "distinct (map fst d)"
  let ?body = "join_items (map encode_item d) @ CHR 0x0A # CHR ''}'' # []"
  obtain u where h: "?body = CHR 0x22 # u"
    unfolding Cons using join_items_head by blast
  have pp: "parse_pairs ?body = Some (d, [])"
    using Cons by (intro parse_pairs_encoded) simp
  have dumps: "json_dumps d = CHR ''{'' # CHR 0x0A # CHR '' '' # CHR '' '' # ?body"
    using Cons by (simp add: json_dumps_def)
  have ex: "expect (CHR ''{'') (skip_ws (CHR ''{'' # CHR 0x0A # CHR '' '' # CHR '' '' # ?body))
      = Some (CHR 0x0A # CHR '' '' # CHR '' '' # ?body)"
    by (simp add: expect_def skip_ws_Cons json_ws_def)
  have "skip_ws (CHR 0x0A # CHR '' '' # CHR '' '' # CHR 0x22 # u) = CHR 0x22 # u"
    by (simp add: skip_ws_Cons json_ws_def)
  then have sk: "skip_ws (CHR 0x0A # CHR '' '' # CHR '' '' # ?body) = CHR 0x22 # u"
    by (simp only: h)
  have pp': "parse_pairs (CHR 0x22 # u) = Some (d, [])"
    using pp by (simp only: h)
  have fin: "finish d [] = Some d"
    by (simp add: finish_def skip_ws_def dict_of_pairs_distinct [OF dist])
  show ?thesis
    unfolding dumps json_loads_def ex
    by (simp add: sk pp' fin)
qed

text \<open>
  Claim C8. For every mapping of category names to keyword strings (a dict: no name
  twice), whatever bytes the names and keywords hold (non-ASCII text, quotes,
  backslashes, control characters, the empty string), loading right after saving
  returns that mapping, in the same order; and loading when the file is absent returns
  the empty mapping, not an error.
\<close>

theorem category_store_round_trip:
  "(distinct (map fst cats) \<longrightarrow> load_categories (save_categories cats file) = Inr cats)
   \<and> load_categories None = Inr []"
  by (simp add: load_categories_def save_categories_def json_loads_dumps)

theorem category_store_round_trip_witness:
  "distinct (map fst
      [(''Kids'', ''kids,girl''), ([CHR 0xE5, CHR 0x84, CHR 0xBF], []),
       ([CHR ''a'', CHR 0x22, CHR 0x5C], [CHR ''x'', CHR 0x0A, CHR 0x01, CHR 0xC3, CHR 0xB1])])
   \<and> load_categories (save_categories
      [(''Kids'', ''kids,girl''), ([CHR 0xE5, CHR 0x84, CHR 0xBF], []),
       ([CHR ''a'', CHR 0x22, CHR 0x5C], [CHR ''x'', CHR 0x0A, CHR 0x01, CHR 0xC3, CHR 0xB1])]
      None)
     = Inr [(''Kids'', ''kids,girl''), ([CHR 0xE5, CHR 0x84, CHR 0xBF], []),
       ([CHR ''a'', CHR 0x22, CHR 0x5C], [CHR ''x'', CHR 0x0A, CHR 0x01, CHR 0xC3, CHR 0xB1])]"
proof -
  let ?c = "[(''Kids'', ''kids,girl''), ([CHR 0xE5, CHR 0x84, CHR 0xBF], []),
       ([CHR ''a'', CHR 0x22, CHR 0x5C], [CHR ''x'', CHR 0x0A, CHR 0x01, CHR 0xC3, CHR 0xB1])]"
  have d: "distinct (map fst ?c)" by simp
  from category_store_round_trip [of ?c None] d show ?thesis by blast
qed

end
